theory Spec2Isabelle
  imports Main
begin

section \<open>Values of the source language\<close>

text \<open>
  The source is TypeScript. Message identifiers, watermarks and deletion ids are integers
  (\<open>int\<close>); a property that may be absent is an \<open>option\<close> (\<open>None\<close> is
  \<open>undefined\<close>). The source tests such properties for truthiness (\<open>!r.hi\<close>,
  \<open>!user[what]\<close>, \<open>pub.data.seq || ...\<close>): \<open>undefined\<close> and \<open>0\<close> are
  both falsy.
\<close>

definition falsy :: "int option \<Rightarrow> bool" where
  "falsy v = (case v of None \<Rightarrow> True | Some n \<Rightarrow> n = 0)"

definition truthy :: "int option \<Rightarrow> bool" where
  "truthy v = (case v of None \<Rightarrow> False | Some n \<Rightarrow> n \<noteq> 0)"

text \<open>
  Relational operators on a possibly absent number: \<open>undefined\<close> converts to NaN and
  every comparison with NaN is false.
\<close>

definition js_ge :: "int option \<Rightarrow> int option \<Rightarrow> bool" where
  "js_ge a b = (case a of None \<Rightarrow> False
                | Some x \<Rightarrow> (case b of None \<Rightarrow> False | Some y \<Rightarrow> y \<le> x))"

definition js_lt :: "int option \<Rightarrow> int \<Rightarrow> bool" where
  "js_lt a n = (case a of None \<Rightarrow> False | Some x \<Rightarrow> x < n)"

datatype error = Error string

section \<open>Deletion ranges\<close>

text \<open>\<open>DelRange\<close>: \<open>{ low: number, hi?: number, all?: boolean }\<close>.\<close>

record del_range =
  low :: int
  hi :: "int option"
  all :: "bool option"

text \<open>
  The comparator that \<open>delMessages\<close> hands to \<open>ranges.sort\<close> (topic.ts, lines 424-432).
  It returns \<open>1\<close> or \<open>-1\<close>, never \<open>0\<close>.
\<close>

definition range_cmp :: "del_range \<Rightarrow> del_range \<Rightarrow> int" where
  "range_cmp r1 r2 =
     (if low r1 < low r2 then 1
      else if low r1 = low r2 then
        (if falsy (hi r2) \<or> js_ge (hi r1) (hi r2) then 1 else - 1)
      else - 1)"

text \<open>
  \<open>Array.prototype.sort(cmp)\<close>: \<open>cmp a b < 0\<close> asks for \<open>a\<close> before \<open>b\<close>,
  \<open>cmp a b > 0\<close> for \<open>a\<close> after \<open>b\<close>. The model is a stable insertion sort:
  the elements are taken from left to right, and each is placed before the first element
  already placed that it must precede. On arrays where the comparator is a strict order
  every conforming engine returns the same array.
\<close>

fun sort_insert :: "('a \<Rightarrow> 'a \<Rightarrow> int) \<Rightarrow> 'a \<Rightarrow> 'a list \<Rightarrow> 'a list" where
  "sort_insert cmp x [] = [x]"
| "sort_insert cmp x (y # ys) =
     (if cmp x y < 0 then x # y # ys else y # sort_insert cmp x ys)"

definition array_sort :: "('a \<Rightarrow> 'a \<Rightarrow> int) \<Rightarrow> 'a list \<Rightarrow> 'a list" where
  "array_sort cmp xs = foldl (\<lambda>acc x. sort_insert cmp x acc) [] xs"

definition sort_ranges :: "del_range list \<Rightarrow> del_range list" where
  "sort_ranges ranges = array_sort range_cmp ranges"

text \<open>
  The \<open>reduce\<close> that computes \<open>tosend\<close> (lines 435-448). \<open>AppSettings.LOCAL_SEQ_ID\<close>
  is declared in \<open>../constants\<close>, which is not among the sources: it is the parameter
  \<open>L\<close>. A range is sent only when \<open>r.low < L\<close>; its \<open>hi\<close> is replaced by
  \<open>maxSeq + 1\<close> only when \<open>hi\<close> is present, nonzero and not below \<open>L\<close>.
\<close>

definition tosend_step :: "int \<Rightarrow> int \<Rightarrow> del_range list \<Rightarrow> del_range \<Rightarrow> del_range list" where
  "tosend_step L mx out r =
     (if low r < L then
        (if falsy (hi r) \<or> js_lt (hi r) L then out @ [r]
         else out @ [\<lparr>low = low r, hi = Some (mx + 1), all = None\<rparr>])
      else out)"

definition tosend :: "int \<Rightarrow> int \<Rightarrow> del_range list \<Rightarrow> del_range list" where
  "tosend L mx rs = foldl (tosend_step L mx) [] rs"

section \<open>The topic\<close>

text \<open>
  A message packet (\<open>Packet<PubPacketData>\<close>) with the fields the source reads or
  writes. Packets are objects shared between the caller and the message cache, so the
  topic keeps them in a store indexed by reference and the cache holds references.
\<close>

type_synonym ref = nat

record packet =
  seq :: "int option"
  ts :: "nat option"
  from_user :: "string option"
  noecho :: bool
  content :: string
  head_attachments :: "string list option"
  sending :: bool
  failed :: bool
  cancelled :: bool
  noForwarding :: bool

text \<open>The control message the Session collaborator answers with.\<close>

record ctrl =
  ctrl_code :: int
  ctrl_text :: string
  ctrl_ts :: nat
  params_seq :: int
  params_del :: int

text \<open>
  What a promise returned by the topic resolves to: a control message of the server, the
  local object \<open>{ code, text }\<close>, the local object \<open>{ params: { del } }\<close>, or
  \<open>undefined\<close>.
\<close>

datatype reply =
    Ctrl ctrl
  | Code_text int string
  | Params_del int
  | Undefined

text \<open>Requests handed to the Session collaborator (\<open>this.tinode\<close>).\<close>

datatype request =
    Del_request string "del_range list" "bool option"
  | Note_request string string int
  | Publish_request ref

text \<open>
  The topic object: the fields of the class that the modelled methods touch, the store of
  packets, and the effects on the collaborators as logs: \<open>sent\<close> (requests to the
  Session), \<open>logged\<close> (\<open>tinode.logger\<close>), \<open>onData\<close> (values emitted on the
  data-changed channel, \<open>None\<close> for \<open>next()\<close> without argument) and \<open>me_updates\<close>
  (\<open>setMsgReadRecv\<close> on the \<open>me\<close> topic). The last field, \<open>called\<close>, is a trace
  of calls to the topic's own methods; only \<open>tracing_hooks\<close> below writes it.
\<close>

datatype method_call =
    GetQueuedSeqId
  | FlushMessage int
  | FlushMessageRange int int
  | UpdateDeletedRanges
  | RouteData ref

record topic =
  name :: string
  subscribed :: bool
  users :: "string \<rightharpoonup> (string \<rightharpoonup> int)"
  queuedSeqId :: int
  messages :: "ref list"
  store :: "ref \<Rightarrow> packet"
  maxSeq :: int
  maxDel :: int
  sent :: "request list"
  logged :: "string list"
  onData :: "ref option list"
  me_updates :: "(string \<times> string \<times> int) list"
  called :: "method_call list"

text \<open>
  The methods at the end of the class have empty bodies in this source
  (\<open>flushMessage(a: any) { }\<close>, ...). The methods that call them take them as a record
  of functions; \<open>topic_hooks\<close> is that record with the bodies the source has.
\<close>

record hooks =
  getQueuedSeqId :: "topic \<Rightarrow> int \<times> topic"
  flushMessage :: "int \<Rightarrow> topic \<Rightarrow> topic"
  flushMessageRange :: "int \<Rightarrow> int \<Rightarrow> topic \<Rightarrow> topic"
  updateDeletedRanges :: "topic \<Rightarrow> topic"
  routeData :: "ref \<Rightarrow> topic \<Rightarrow> topic"

definition topic_hooks :: hooks where
  "topic_hooks =
     \<lparr>getQueuedSeqId = (\<lambda>t. (0, t)),
      flushMessage = (\<lambda>a t. t),
      flushMessageRange = (\<lambda>a b t. t),
      updateDeletedRanges = (\<lambda>t. t),
      routeData = (\<lambda>a t. t)\<rparr>"

text \<open>
  The same bodies, each recording its call and its arguments in \<open>called\<close> and changing
  nothing else: run with these, a method of the topic shows which of them it calls, in
  which order and with which arguments.
\<close>

definition tracing_hooks :: hooks where
  "tracing_hooks =
     \<lparr>getQueuedSeqId = (\<lambda>t. (0, t\<lparr>called := called t @ [GetQueuedSeqId]\<rparr>)),
      flushMessage = (\<lambda>a t. t\<lparr>called := called t @ [FlushMessage a]\<rparr>),
      flushMessageRange = (\<lambda>a b t. t\<lparr>called := called t @ [FlushMessageRange a b]\<rparr>),
      updateDeletedRanges = (\<lambda>t. t\<lparr>called := called t @ [UpdateDeletedRanges]\<rparr>),
      routeData = (\<lambda>a t. t\<lparr>called := called t @ [RouteData a]\<rparr>)\<rparr>"

section \<open>delMessages\<close>

text \<open>\<open>ctrl.params.del\<close> of what the delete promise resolved to.\<close>

definition del_of :: "reply \<Rightarrow> int option" where
  "del_of r = (case r of Ctrl c \<Rightarrow> Some (params_del c) | Params_del d \<Rightarrow> Some d
               | Code_text c s \<Rightarrow> None | Undefined \<Rightarrow> None)"

text \<open>The body of \<open>ranges.forEach\<close> (lines 467-473).\<close>

definition flush_one :: "hooks \<Rightarrow> topic \<Rightarrow> del_range \<Rightarrow> topic" where
  "flush_one h t r =
     (if truthy (hi r) then flushMessageRange h (low r) (the (hi r)) t
      else flushMessage h (low r) t)"

text \<open>
  The \<open>then\<close> callback of \<open>delMessages\<close> (lines 462-479); it runs only when the promise
  \<open>result\<close> is fulfilled.
\<close>

definition delMessages_then :: "hooks \<Rightarrow> del_range list \<Rightarrow> reply \<Rightarrow> topic \<Rightarrow> (error + reply) \<times> topic" where
  "delMessages_then h rs r t =
     (let t1 = (case del_of r of
                  Some d \<Rightarrow> (if maxDel t < d then t\<lparr>maxDel := d\<rparr> else t)
                | None \<Rightarrow> t);
          t2 = foldl (flush_one h) t1 rs;
          t3 = updateDeletedRanges h t2
      in (Inr r, t3\<lparr>onData := onData t3 @ [None]\<rparr>))"

text \<open>
  \<open>delMessages(ranges, hard)\<close> (lines 418-480). \<open>resp\<close> is what the promise of
  \<open>tinode.delMessages\<close> settles to (\<open>Inl\<close>: rejected); it is consulted only when the
  request is issued. The result is what the returned promise settles to.
\<close>

definition delMessages :: "hooks \<Rightarrow> int \<Rightarrow> error + ctrl \<Rightarrow> del_range list \<Rightarrow> bool option \<Rightarrow> topic \<Rightarrow> (error + reply) \<times> topic" where
  "delMessages h L resp ranges hard t =
     (if \<not> subscribed t then
        (Inl (Error ''Cannot delete messages in inactive topic''), t)
      else
        (let rs = sort_ranges ranges;
             out = tosend L (maxSeq t) rs
         in if 0 < length out then
              (let t1 = t\<lparr>sent := sent t @ [Del_request (name t) out hard]\<rparr>
               in case resp of
                    Inl err \<Rightarrow> (Inl err, t1)
                  | Inr c \<Rightarrow> delMessages_then h rs (Ctrl c) t1)
            else delMessages_then h rs (Params_del 0) t))"

section \<open>note\<close>

text \<open>
  What the methods ask of the Tinode object besides requests: the id of the current user,
  whether a \<open>me\<close> topic exists, the clock (\<open>new Date()\<close>) and the two functions of
  \<open>Drafty\<close> that \<open>publishMessage\<close> calls.
\<close>

record env =
  currentUserID :: string
  hasMeTopic :: bool
  now :: nat
  hasAttachments :: "string \<Rightarrow> bool"
  attachments :: "string \<Rightarrow> string list"

text \<open>
  \<open>note(what, seq)\<close> (lines 570-591). A subscriber record is an object indexed by
  property name (\<open>user[what]\<close>). The method has no \<open>throw\<close> and no \<open>return\<close>:
  it always completes normally, \<open>Inr ()\<close>. (\<open>note\<close> is a keyword of Isar, hence
  the name \<open>topic_note\<close>.)
\<close>

definition topic_note :: "env \<Rightarrow> string \<Rightarrow> int \<Rightarrow> topic \<Rightarrow> (error + unit) \<times> topic" where
  "topic_note e what sq t =
     (let uid = currentUserID e;
          t1 = (case users t uid of
                  Some user \<Rightarrow>
                    (if falsy (user what) \<or> js_lt (user what) sq then
                       (let t' = (if subscribed t
                                  then t\<lparr>sent := sent t @ [Note_request (name t) what sq]\<rparr>
                                  else t\<lparr>logged := logged t @
                                         [''INFO: Not sending {note} on inactive topic'']\<rparr>)
                        in t'\<lparr>users := (users t')(uid \<mapsto> user(what \<mapsto> sq))\<rparr>)
                     else t)
                | None \<Rightarrow>
                    t\<lparr>logged := logged t @ [''ERROR: note(): user not found '' @ uid]\<rparr>);
          t2 = (if hasMeTopic e
                then t1\<lparr>me_updates := me_updates t1 @ [(name t1, what, sq)]\<rparr>
                else t1)
      in (Inr (), t2))"

text \<open>The stored watermark \<open>what\<close> of user \<open>uid\<close>, if the record and the property exist.\<close>

definition watermark :: "topic \<Rightarrow> string \<Rightarrow> string \<Rightarrow> int option" where
  "watermark t uid what = (case users t uid of None \<Rightarrow> None | Some user \<Rightarrow> user what)"

section \<open>The message cache\<close>

text \<open>
  Modelled from the spec: the class \<open>CBuffer\<close> (\<open>../cbuffer\<close>) is not among the
  sources. The spec's OrderedMessageCache gives its contract: \<open>insert\<close> places the entry
  preserving ascending \<open>seq\<close> order and is a no-op when an entry with the same \<open>seq\<close>
  exists; \<open>findBySeq\<close> returns the index or not-found (\<open>-1\<close>); \<open>deleteAt\<close> removes
  the entry at an index (no entry is removed for an index outside the buffer). The
  comparator the topic passes is \<open>a.seq - b.seq\<close>; every packet the source puts in the
  cache has had its \<open>seq\<close> assigned just before.
\<close>

definition seq_key :: "(ref \<Rightarrow> packet) \<Rightarrow> ref \<Rightarrow> int" where
  "seq_key st r = (case seq (st r) of Some s \<Rightarrow> s | None \<Rightarrow> 0)"

fun cbuffer_put :: "(ref \<Rightarrow> packet) \<Rightarrow> ref \<Rightarrow> ref list \<Rightarrow> ref list" where
  "cbuffer_put st x [] = [x]"
| "cbuffer_put st x (y # ys) =
     (if seq_key st x < seq_key st y then x # y # ys
      else if seq_key st x = seq_key st y then y # ys
      else y # cbuffer_put st x ys)"

fun find_from :: "(ref \<Rightarrow> packet) \<Rightarrow> int option \<Rightarrow> ref list \<Rightarrow> int \<Rightarrow> int" where
  "find_from st k [] i = - 1"
| "find_from st k (y # ys) i = (if seq (st y) = k then i else find_from st k ys (i + 1))"

definition cbuffer_find :: "(ref \<Rightarrow> packet) \<Rightarrow> int option \<Rightarrow> ref list \<Rightarrow> int" where
  "cbuffer_find st k xs = find_from st k xs 0"

definition cbuffer_delAt :: "int \<Rightarrow> ref list \<Rightarrow> ref list" where
  "cbuffer_delAt i xs =
     (if 0 \<le> i \<and> i < int (length xs) then take (nat i) xs @ drop (nat i + 1) xs else xs)"

text \<open>The \<open>seq\<close> values of the cache, in cache order.\<close>

definition cache_seqs :: "topic \<Rightarrow> int option list" where
  "cache_seqs t = map (\<lambda>r. seq (store t r)) (messages t)"

text \<open>
  Modelled from the spec: the body of \<open>flushMessageRange\<close> is empty in the source. The
  spec's \<open>deleteRange(low, hiExclusive)\<close> removes all entries with
  \<open>low \<le> seq < hi\<close>; \<open>range_hooks\<close> has it as the range flush and the source's bodies
  for the other methods.
\<close>

definition cache_deleteRange :: "int \<Rightarrow> int \<Rightarrow> topic \<Rightarrow> topic" where
  "cache_deleteRange lo up t =
     t\<lparr>messages := filter (\<lambda>r. \<not> (lo \<le> seq_key (store t) r \<and> seq_key (store t) r < up))
                      (messages t)\<rparr>"

definition range_hooks :: hooks where
  "range_hooks = topic_hooks\<lparr>flushMessageRange := cache_deleteRange\<rparr>"

text \<open>
  Modelled from the spec: the body of \<open>getQueuedSeqId\<close> in the source is \<open>return 0\<close>.
  The spec's ProvisionalIdAllocator issues fresh identifiers, for example from a strictly
  decreasing counter; \<open>counter_hooks\<close> has that allocator on the field \<open>queuedSeqId\<close>.
\<close>

definition counter_hooks :: hooks where
  "counter_hooks =
     topic_hooks\<lparr>getQueuedSeqId := (\<lambda>t. (queuedSeqId t, t\<lparr>queuedSeqId := queuedSeqId t - 1\<rparr>))\<rparr>"

section \<open>swapMessageId\<close>

text \<open>
  \<open>swapMessageId(pub, newSeqId)\<close> (lines 142-158). The index is looked up and the
  packet's \<open>seq\<close> is overwritten in place; the body of the \<open>if\<close> holds only comments
  (the \<open>delAt\<close>/\<open>put\<close> pair is commented out), so both branches leave the cache as it
  is.
\<close>

definition swapMessageId :: "ref \<Rightarrow> int \<Rightarrow> topic \<Rightarrow> topic" where
  "swapMessageId pub newSeqId t =
     (let idx = cbuffer_find (store t) (seq (store t pub)) (messages t);
          numMessages = int (length (messages t));
          t1 = t\<lparr>store := (store t)(pub := (store t pub)\<lparr>seq := Some newSeqId\<rparr>)\<rparr>
      in if 0 \<le> idx \<and> idx < numMessages then t1 else t1)"

section \<open>publishMessage and publishDraft\<close>

text \<open>
  \<open>publishMessage(pub)\<close> (lines 173-203). \<open>resp\<close> is what the awaited promise of
  \<open>tinode.publishMessage\<close> settles to. A rejection is caught: the method then resolves
  to \<open>undefined\<close>.
\<close>

definition publishMessage :: "hooks \<Rightarrow> env \<Rightarrow> error + ctrl \<Rightarrow> ref \<Rightarrow> topic \<Rightarrow> (error + reply) \<times> topic" where
  "publishMessage h e resp pub t =
     (if \<not> subscribed t then (Inl (Error ''Cannot publish on inactive topic''), t)
      else
        (let p = store t pub;
             p1 = (if hasAttachments e (content p) \<and> head_attachments p = None
                   then p\<lparr>head_attachments := Some (attachments e (content p))\<rparr> else p);
             p2 = p1\<lparr>sending := True, failed := False\<rparr>;
             t1 = t\<lparr>store := (store t)(pub := p2), sent := sent t @ [Publish_request pub]\<rparr>
         in case resp of
              Inr c \<Rightarrow>
                (let p3 = (store t1 pub)\<lparr>sending := False, ts := Some (ctrl_ts c)\<rparr>;
                     t2 = t1\<lparr>store := (store t1)(pub := p3)\<rparr>;
                     t3 = swapMessageId pub (params_seq c) t2
                 in (Inr (Ctrl c), routeData h pub t3))
            | Inl err \<Rightarrow>
                (let p3 = (store t1 pub)\<lparr>sending := False, failed := True\<rparr>
                 in (Inr Undefined,
                     t1\<lparr>logged := logged t1 @ [''WARNING: Message rejected by the server''],
                        store := (store t1)(pub := p3),
                        onData := onData t1 @ [None]\<rparr>))))"

text \<open>How the precondition promise handed to \<open>publishDraft\<close> settles.\<close>

datatype settled = Fulfilled | Rejected error

text \<open>\<open>pub.data.seq || this.getQueuedSeqId()\<close>: the allocator is called only when the
  draft has no (nonzero) \<open>seq\<close>.\<close>

definition draft_seq :: "hooks \<Rightarrow> ref \<Rightarrow> topic \<Rightarrow> int \<times> topic" where
  "draft_seq h pub t =
     (if truthy (seq (store t pub)) then (the (seq (store t pub)), t) else getQueuedSeqId h t)"

text \<open>
  \<open>publishDraft(pub, prom)\<close> (lines 214-256) runs in two steps. The first is synchronous
  (lines 215-233): \<open>given\<close> says whether a promise was supplied. \<open>Inl\<close> is the rejected
  promise returned at once.
\<close>

definition publishDraft_queue :: "hooks \<Rightarrow> env \<Rightarrow> ref \<Rightarrow> bool \<Rightarrow> topic \<Rightarrow> (error + unit) \<times> topic" where
  "publishDraft_queue h e pub given t =
     (if \<not> given \<and> \<not> subscribed t then
        (Inl (Error ''Cannot publish on inactive topic''), t)
      else
        (let (sq, t0) = draft_seq h pub t
         in if \<not> noForwarding (store t0 pub) then
              (let p = (store t0 pub)\<lparr>noForwarding := True, seq := Some sq,
                         ts := Some (now e), from_user := Some (currentUserID e),
                         noecho := True\<rparr>;
                   st = (store t0)(pub := p)
               in (Inr (), t0\<lparr>store := st,
                                messages := cbuffer_put st pub (messages t0),
                                onData := onData t0 @ [Some pub]\<rparr>))
            else (Inr (), t0)))"

text \<open>
  The second step is the pair of callbacks given to \<open>then\<close> (lines 237-254), run when
  the precondition settles, on the topic as it is at that moment.
\<close>

definition publishDraft_settle :: "hooks \<Rightarrow> env \<Rightarrow> settled \<Rightarrow> error + ctrl \<Rightarrow> ref \<Rightarrow> topic \<Rightarrow> (error + reply) \<times> topic" where
  "publishDraft_settle h e outcome resp pub t =
     (case outcome of
        Fulfilled \<Rightarrow>
          (if cancelled (store t pub) then (Inr (Code_text 300 ''cancelled''), t)
           else publishMessage h e resp pub t)
      | Rejected err \<Rightarrow>
          (let p = (store t pub)\<lparr>sending := False, failed := True\<rparr>;
               st = (store t)(pub := p);
               idx = cbuffer_find st (seq (st pub)) (messages t)
           in (Inr Undefined,
               t\<lparr>logged := logged t @ [''WARNING: Message draft rejected by the server''],
                  store := st,
                  messages := cbuffer_delAt idx (messages t),
                  onData := onData t @ [None]\<rparr>)))"

text \<open>
  The whole call. \<open>prom\<close> is the supplied promise with the way it settles, or \<open>None\<close>
  (then \<open>Promise.resolve()\<close> is used). \<open>between\<close> is what other code does to the topic
  after \<open>publishDraft\<close> has returned and before the callback runs (marking the draft
  cancelled, for one).
\<close>

definition publishDraft :: "hooks \<Rightarrow> env \<Rightarrow> (topic \<Rightarrow> topic) \<Rightarrow> error + ctrl \<Rightarrow> ref \<Rightarrow> settled option \<Rightarrow> topic \<Rightarrow> (error + reply) \<times> topic" where
  "publishDraft h e between resp pub prom t =
     (case publishDraft_queue h e pub (prom \<noteq> None) t of
        (Inl err, t1) \<Rightarrow> (Inl err, t1)
      | (Inr u, t1) \<Rightarrow>
          publishDraft_settle h e (case prom of None \<Rightarrow> Fulfilled | Some s \<Rightarrow> s)
            resp pub (between t1))"

text \<open>\<open>pub.cancelled = true\<close>, as the owner of a queued draft sets it.\<close>

definition cancel :: "ref \<Rightarrow> topic \<Rightarrow> topic" where
  "cancel pub t = t\<lparr>store := (store t)(pub := (store t pub)\<lparr>cancelled := True\<rparr>)\<rparr>"

section \<open>Example values\<close>

text \<open>A draft as \<open>createMessage\<close> returns it, and a topic as the constructor leaves it.\<close>

definition draft :: packet where
  "draft = \<lparr>seq = None, ts = None, from_user = None, noecho = False, content = ''hi'',
     head_attachments = None, sending = False, failed = False, cancelled = False,
     noForwarding = False\<rparr>"

definition new_topic :: topic where
  "new_topic = \<lparr>name = ''grp1'', subscribed = False, users = Map.empty, queuedSeqId = 0,
     messages = [], store = (\<lambda>r. draft), maxSeq = 0, maxDel = 0, sent = [], logged = [],
     onData = [], me_updates = [], called = []\<rparr>"

definition live_topic :: topic where
  "live_topic = new_topic\<lparr>subscribed := True\<rparr>"

definition env0 :: env where
  "env0 = \<lparr>currentUserID = ''usr1'', hasMeTopic = False, now = 0,
     hasAttachments = (\<lambda>c. False), attachments = (\<lambda>c. [])\<rparr>"

definition ack :: ctrl where
  "ack = \<lparr>ctrl_code = 200, ctrl_text = ''ok'', ctrl_ts = 1, params_seq = 9, params_del = 3\<rparr>"

text \<open>\<open>this.messages.put(pub)\<close> on its own.\<close>

definition cache_put :: "ref \<Rightarrow> topic \<Rightarrow> topic" where
  "cache_put r t = t\<lparr>messages := cbuffer_put (store t) r (messages t)\<rparr>"

text \<open>A subscribed topic whose cache holds the messages 5, 6 and 7.\<close>

definition cached_567 :: topic where
  "cached_567 = live_topic\<lparr>messages := [0, 1, 2], maxSeq := 7,
     store := (\<lambda>r. draft)(0 := draft\<lparr>seq := Some 5\<rparr>, 1 := draft\<lparr>seq := Some 6\<rparr>,
                            2 := draft\<lparr>seq := Some 7\<rparr>)\<rparr>"

text \<open>Two drafts with the provisional ids \<open>-1\<close> and \<open>-2\<close>, not yet in the cache.\<close>

definition two_drafts :: topic where
  "two_drafts = live_topic\<lparr>store := (\<lambda>r. draft)(0 := draft\<lparr>seq := Some (- 1)\<rparr>,
                                                   1 := draft\<lparr>seq := Some (- 2)\<rparr>)\<rparr>"

text \<open>A subscribed topic with a record for the current user: without watermarks, and with
  the \<open>read\<close> watermark 0.\<close>

definition joined_topic :: topic where
  "joined_topic = live_topic\<lparr>users := [''usr1'' \<mapsto> Map.empty]\<rparr>"

definition zero_read_topic :: topic where
  "zero_read_topic = live_topic\<lparr>users := [''usr1'' \<mapsto> [''read'' \<mapsto> 0]]\<rparr>"

section \<open>Facts about the sort and the clipping\<close>

lemma set_sort_insert: "set (sort_insert cmp x xs) = insert x (set xs)"
  by (induction xs) auto




lemma range_cmp_neg: "range_cmp x y < 0 \<Longrightarrow> low y \<le> low x"
  by (auto simp: range_cmp_def split: if_splits)

lemma range_cmp_nonneg: "\<not> range_cmp x y < 0 \<Longrightarrow> low x \<le> low y"
  by (auto simp: range_cmp_def split: if_splits)

text \<open>Whatever the input, the sort step leaves the ranges in descending order of \<open>low\<close>.\<close>

lemma sort_insert_descending:
  "sorted_wrt (\<lambda>a b. low b \<le> low a) xs \<Longrightarrow>
   sorted_wrt (\<lambda>a b. low b \<le> low a) (sort_insert range_cmp x xs)"
proof (induction xs)
  case Nil
  then show ?case by simp
next
  case (Cons y ys)
  show ?case
  proof (cases "range_cmp x y < 0")
    case True
    then have "low y \<le> low x" by (rule range_cmp_neg)
    with Cons.prems True show ?thesis by fastforce
  next
    case False
    then have "low x \<le> low y" by (rule range_cmp_nonneg)
    with Cons False show ?thesis by (auto simp: set_sort_insert)
  qed
qed

lemma foldl_sort_insert_descending:
  "sorted_wrt (\<lambda>a b. low b \<le> low a) acc \<Longrightarrow>
   sorted_wrt (\<lambda>a b. low b \<le> low a) (foldl (\<lambda>acc x. sort_insert range_cmp x acc) acc xs)"
  by (induction xs arbitrary: acc) (auto intro: sort_insert_descending)

lemma sort_ranges_descending: "sorted_wrt (\<lambda>a b. low b \<le> low a) (sort_ranges rs)"
  by (simp add: sort_ranges_def array_sort_def foldl_sort_insert_descending)








lemma tosend_open_ended:
  "tosend L mx (sort_ranges [\<lparr>low = L - 1, hi = None, all = a\<rparr>])
     = [\<lparr>low = L - 1, hi = None, all = a\<rparr>]"
  by (simp add: sort_ranges_def array_sort_def tosend_def tosend_step_def falsy_def)

section \<open>Facts about the local flush\<close>









section \<open>Facts about note\<close>

lemma note_users:
  assumes "users t (currentUserID e) = Some user"
  shows "users (snd (topic_note e what sq t)) =
     (if falsy (user what) \<or> js_lt (user what) sq
      then (users t)(currentUserID e \<mapsto> user(what \<mapsto> sq)) else users t)"
  using assms by (simp add: topic_note_def Let_def)

lemma note_sent:
  assumes "users t (currentUserID e) = Some user"
  shows "sent (snd (topic_note e what sq t)) =
     (if (falsy (user what) \<or> js_lt (user what) sq) \<and> subscribed t
      then sent t @ [Note_request (name t) what sq] else sent t)"
  using assms by (simp add: topic_note_def Let_def)

lemma note_watermark_eq:
  assumes "users t (currentUserID e) = Some user"
  shows "watermark (snd (topic_note e what sq t)) (currentUserID e) what =
     (if falsy (user what) \<or> js_lt (user what) sq then Some sq else user what)"
  using assms by (simp add: watermark_def note_users [OF assms])

text \<open>A second call with a value that is not larger changes neither the records nor the
  requests sent.\<close>

lemma note_again:
  assumes u: "users t (currentUserID e) = Some user" and "sq' \<le> sq" and "sq \<noteq> 0"
  shows "users (snd (topic_note e what sq' (snd (topic_note e what sq t))))
           = users (snd (topic_note e what sq t))
       \<and> sent (snd (topic_note e what sq' (snd (topic_note e what sq t))))
           = sent (snd (topic_note e what sq t))"
proof -
  let ?t = "snd (topic_note e what sq t)"
  define user' where "user' = (if falsy (user what) \<or> js_lt (user what) sq
    then user(what \<mapsto> sq) else user)"
  have u': "users ?t (currentUserID e) = Some user'"
    using u by (simp add: note_users [OF u] user'_def)
  have w: "user' what = (if falsy (user what) \<or> js_lt (user what) sq then Some sq else user what)"
    by (simp add: user'_def)
  from w assms(2,3) have n: "\<not> (falsy (user' what) \<or> js_lt (user' what) sq')"
    by (auto simp: falsy_def js_lt_def split: option.splits if_splits)
  from note_users [OF u', of what sq'] note_sent [OF u', of what sq'] n
  show ?thesis by simp
qed

section \<open>Facts about the cache and the publish pipeline\<close>

lemma swapMessageId_messages: "messages (swapMessageId pub n t) = messages t"
  by (simp add: swapMessageId_def Let_def)

lemma swapMessageId_seq: "seq (store (swapMessageId pub n t) pub) = Some n"
  by (simp add: swapMessageId_def Let_def)



lemma publishDraft_queue_source:
  "publishDraft_queue topic_hooks e pub given t = (Inr (), t1) \<Longrightarrow> sent t1 = sent t"
  by (auto simp: publishDraft_queue_def draft_seq_def topic_hooks_def Let_def
      split: if_splits prod.splits)

lemma publishDraft_queue_ok:
  "(\<exists>t1. publishDraft_queue h e pub given t = (Inr (), t1)) = (given \<or> subscribed t)"
  by (auto simp: publishDraft_queue_def Let_def split: prod.splits)


section \<open>Claims about delMessages\<close>

text \<open>
  C3. When the Session collaborator rejects the delete request that \<open>delMessages\<close> issued
  (the topic is subscribed and \<open>tosend\<close> is not empty), the rejection is what the caller
  gets, and nothing is flushed: the only change to the topic is the request in the log of
  sent requests; the message cache, the packets, \<open>maxDel\<close> and the data-changed channel are
  as before. This holds whatever the bodies of the flush methods are.
\<close>

theorem delMessages_rejected:
  assumes "subscribed t" and "tosend L (maxSeq t) (sort_ranges ranges) \<noteq> []"
  shows "delMessages h L (Inl err) ranges hard t =
           (Inl err, t\<lparr>sent := sent t @
              [Del_request (name t) (tosend L (maxSeq t) (sort_ranges ranges)) hard]\<rparr>)
         \<and> messages (snd (delMessages h L (Inl err) ranges hard t)) = messages t
         \<and> store (snd (delMessages h L (Inl err) ranges hard t)) = store t
         \<and> maxDel (snd (delMessages h L (Inl err) ranges hard t)) = maxDel t
         \<and> onData (snd (delMessages h L (Inl err) ranges hard t)) = onData t"
  using assms by (simp add: delMessages_def Let_def)

theorem delMessages_rejected_witness:
  "subscribed cached_567
   \<and> tosend 268435455 (maxSeq cached_567) (sort_ranges [\<lparr>low = 5, hi = Some 7, all = None\<rparr>]) \<noteq> []
   \<and> fst (delMessages topic_hooks 268435455 (Inl (Error ''denied''))
            [\<lparr>low = 5, hi = Some 7, all = None\<rparr>] None cached_567) = Inl (Error ''denied'')
   \<and> cache_seqs (snd (delMessages topic_hooks 268435455 (Inl (Error ''denied''))
            [\<lparr>low = 5, hi = Some 7, all = None\<rparr>] None cached_567)) = [Some 5, Some 6, Some 7]"
proof -
  have s: "subscribed cached_567"
    by (simp add: cached_567_def live_topic_def new_topic_def)
  have n: "tosend 268435455 (maxSeq cached_567) (sort_ranges [\<lparr>low = 5, hi = Some 7, all = None\<rparr>]) \<noteq> []"
    by (simp add: sort_ranges_def array_sort_def tosend_def tosend_step_def falsy_def js_lt_def)
  have c: "cache_seqs cached_567 = [Some 5, Some 6, Some 7]"
    by (simp add: cache_seqs_def cached_567_def live_topic_def new_topic_def draft_def)
  from delMessages_rejected [OF s n, of topic_hooks "Error ''denied''" None] s n c
  show ?thesis by (simp add: cache_seqs_def)
qed

text \<open>
  C2 (the code differs). The comment above the sort says "ascending order by low", but the
  comparator answers \<open>1\<close> (put \<open>r1\<close> after \<open>r2\<close>) when \<open>r1.low < r2.low\<close>: the
  ranges come out in descending order of \<open>low\<close>, on the two ranges \<open>{low: 1}\<close>,
  \<open>{low: 2}\<close> and on the three ranges of the spec's coalescing example. The lemma
  \<open>sort_ranges_descending\<close> above shows the descending order for every input.
\<close>

theorem sort_ranges_descending_example:
  "sort_ranges [\<lparr>low = 1, hi = None, all = None\<rparr>, \<lparr>low = 2, hi = None, all = None\<rparr>]
     = [\<lparr>low = 2, hi = None, all = None\<rparr>, \<lparr>low = 1, hi = None, all = None\<rparr>]
   \<and> sort_ranges [\<lparr>low = 1, hi = Some 5, all = None\<rparr>, \<lparr>low = 3, hi = Some 8, all = None\<rparr>,
                  \<lparr>low = 10, hi = None, all = None\<rparr>]
     = [\<lparr>low = 10, hi = None, all = None\<rparr>, \<lparr>low = 3, hi = Some 8, all = None\<rparr>,
        \<lparr>low = 1, hi = Some 5, all = None\<rparr>]"
  by (simp add: sort_ranges_def array_sort_def range_cmp_def)









section \<open>Claims about note\<close>

text \<open>
  C7, as the spec states it, fails where the stored watermark is 0: the test is
  \<open>!user[what] || user[what] < seq\<close>, and 0 is falsy. On a record with \<open>read: 0\<close>,
  \<open>note('read', -1)\<close> lowers the watermark to \<open>-1\<close> and sends a notification, and
  \<open>note('read', 0)\<close> sends a notification although nothing increases.
\<close>

theorem note_zero_watermark:
  "watermark zero_read_topic ''usr1'' ''read'' = Some 0
   \<and> watermark (snd (topic_note env0 ''read'' (- 1) zero_read_topic)) ''usr1'' ''read'' = Some (- 1)
   \<and> sent (snd (topic_note env0 ''read'' (- 1) zero_read_topic)) = [Note_request ''grp1'' ''read'' (- 1)]
   \<and> watermark (snd (topic_note env0 ''read'' 0 zero_read_topic)) ''usr1'' ''read'' = Some 0
   \<and> sent (snd (topic_note env0 ''read'' 0 zero_read_topic)) = [Note_request ''grp1'' ''read'' 0]"
  by (simp add: topic_note_def Let_def zero_read_topic_def live_topic_def new_topic_def env0_def
      falsy_def js_lt_def watermark_def)

text \<open>
  C7, amended. For the record of the current user and every property \<open>what\<close> (\<open>recv\<close>
  and \<open>read\<close> among them): the watermark becomes \<open>seq\<close> exactly when the stored value
  is absent or zero, or smaller than \<open>seq\<close>, and is unchanged otherwise; so a stored
  nonzero watermark \<open>v\<close> becomes \<open>max v seq\<close> and never decreases. A request goes to the
  Session exactly when the watermark is written and the topic is subscribed; on an inactive
  topic the watermark is written and nothing is sent. \<open>note(what, 5)\<close> followed by
  \<open>note(what, 3)\<close> leaves the watermark where the first call put it (5, or the larger
  value stored before) and the second call sends nothing.
\<close>

theorem note_watermark:
  assumes "users t (currentUserID e) = Some user"
  shows "watermark (snd (topic_note e what sq t)) (currentUserID e) what =
           (if falsy (user what) \<or> js_lt (user what) sq then Some sq else user what)
       \<and> (\<forall>v. user what = Some v \<and> v \<noteq> 0 \<longrightarrow>
            watermark (snd (topic_note e what sq t)) (currentUserID e) what = Some (max v sq))
       \<and> sent (snd (topic_note e what sq t)) =
           (if (falsy (user what) \<or> js_lt (user what) sq) \<and> subscribed t
            then sent t @ [Note_request (name t) what sq] else sent t)
       \<and> watermark (snd (topic_note e what 3 (snd (topic_note e what 5 t)))) (currentUserID e) what
           = (if falsy (user what) \<or> js_lt (user what) 5 then Some 5 else user what)
       \<and> sent (snd (topic_note e what 3 (snd (topic_note e what 5 t))))
           = sent (snd (topic_note e what 5 t))"
proof -
  note w = note_watermark_eq [OF assms]
  have m: "\<forall>v. user what = Some v \<and> v \<noteq> 0 \<longrightarrow>
      watermark (snd (topic_note e what sq t)) (currentUserID e) what = Some (max v sq)"
    by (auto simp: w falsy_def js_lt_def)
  have a: "users (snd (topic_note e what 3 (snd (topic_note e what 5 t))))
           = users (snd (topic_note e what 5 t))
       \<and> sent (snd (topic_note e what 3 (snd (topic_note e what 5 t))))
           = sent (snd (topic_note e what 5 t))"
    by (rule note_again [OF assms]) simp_all
  then have "watermark (snd (topic_note e what 3 (snd (topic_note e what 5 t)))) (currentUserID e) what
      = watermark (snd (topic_note e what 5 t)) (currentUserID e) what"
    by (simp add: watermark_def)
  with w [of what 5] w [of what sq] m note_sent [OF assms, of what sq] a show ?thesis
    by simp
qed

theorem note_watermark_witness:
  "users joined_topic (currentUserID env0) = Some Map.empty
   \<and> watermark (snd (topic_note env0 ''read'' 3 (snd (topic_note env0 ''read'' 5 joined_topic))))
        ''usr1'' ''read'' = Some 5
   \<and> sent (snd (topic_note env0 ''read'' 3 (snd (topic_note env0 ''read'' 5 joined_topic))))
        = [Note_request ''grp1'' ''read'' 5]"
proof -
  have u: "users joined_topic (currentUserID env0) = Some Map.empty"
    by (simp add: joined_topic_def env0_def)
  have c: "currentUserID env0 = ''usr1''" by (simp add: env0_def)
  have s: "sent (snd (topic_note env0 ''read'' 5 joined_topic)) = [Note_request ''grp1'' ''read'' 5]"
    by (simp add: topic_note_def Let_def joined_topic_def live_topic_def new_topic_def env0_def falsy_def)
  note th = note_watermark [OF u, of "''read''" 5]
  from th have a: "watermark (snd (topic_note env0 ''read'' 3 (snd (topic_note env0 ''read'' 5 joined_topic))))
        (currentUserID env0) ''read'' = (if falsy (Map.empty ''read'') \<or> js_lt (Map.empty ''read'') 5 then Some 5 else Map.empty ''read'')"
    by blast
  from th have b: "sent (snd (topic_note env0 ''read'' 3 (snd (topic_note env0 ''read'' 5 joined_topic))))
        = sent (snd (topic_note env0 ''read'' 5 joined_topic))"
    by blast
  from u a b c s show ?thesis by (simp add: falsy_def)
qed

text \<open>
  C9, as the spec states it, fails in its first part: with no record for the current user
  \<open>note\<close> returns normally; the condition reaches only the logger.
\<close>

theorem note_unknown_user_returns:
  "users live_topic (currentUserID env0) = None
   \<and> fst (topic_note env0 ''read'' 5 live_topic) = Inr ()
   \<and> logged (snd (topic_note env0 ''read'' 5 live_topic)) = [''ERROR: note(): user not found usr1'']"
  by (simp add: topic_note_def Let_def live_topic_def new_topic_def env0_def)

text \<open>
  C9, amended. If no subscriber record exists for the current user, \<open>note\<close> writes the
  message \<open>ERROR: note(): user not found <uid>\<close> to the logger and returns normally to
  the caller; no subscriber record (so no watermark) is changed and no request is sent to
  the Session.
\<close>

theorem note_unknown_user:
  assumes "users t (currentUserID e) = None"
  shows "fst (topic_note e what sq t) = Inr ()
       \<and> users (snd (topic_note e what sq t)) = users t
       \<and> sent (snd (topic_note e what sq t)) = sent t
       \<and> logged (snd (topic_note e what sq t)) =
           logged t @ [''ERROR: note(): user not found '' @ currentUserID e]"
  using assms by (simp add: topic_note_def Let_def)

theorem note_unknown_user_witness:
  "users live_topic (currentUserID env0) = None
   \<and> sent (snd (topic_note env0 ''read'' 5 live_topic)) = []
   \<and> logged (snd (topic_note env0 ''read'' 5 live_topic)) = [''ERROR: note(): user not found usr1'']"
proof -
  have u: "users live_topic (currentUserID env0) = None"
    by (simp add: live_topic_def new_topic_def)
  have e: "sent live_topic = [] \<and> logged live_topic = [] \<and> currentUserID env0 = ''usr1''"
    by (simp add: live_topic_def new_topic_def env0_def)
  from note_unknown_user [OF u, of "''read''" 5] u e show ?thesis by simp
qed

section \<open>Claims about the publish pipeline\<close>

text \<open>
  C1 (the code differs). \<open>swapMessageId\<close> overwrites the packet's \<open>seq\<close> and leaves
  the cache in the order it had: the re-insertion is commented out. After the drafts
  \<open>-1\<close> and \<open>-2\<close> are put in the cache (which orders them \<open>-2, -1\<close>),
  \<open>swapMessageId(-1 to 5)\<close> and \<open>swapMessageId(-2 to 6)\<close> leave the cache in the order
  \<open>[6, 5]\<close>; and in the sorted cache \<open>[5, 6, 7]\<close>, changing 5 to 9 leaves
  \<open>[9, 6, 7]\<close>.
\<close>

theorem swapMessageId_unsorted:
  "cache_seqs (cache_put 1 (cache_put 0 two_drafts)) = [Some (- 2), Some (- 1)]
   \<and> cache_seqs (swapMessageId 1 6 (swapMessageId 0 5 (cache_put 1 (cache_put 0 two_drafts))))
       = [Some 6, Some 5]
   \<and> cache_seqs (swapMessageId 0 9 cached_567) = [Some 9, Some 6, Some 7]"
  by (simp add: cache_seqs_def swapMessageId_def cache_put_def two_drafts_def cached_567_def
      live_topic_def new_topic_def draft_def seq_key_def)

text \<open>
  C8. When the first step of \<open>publishDraft\<close> has queued the draft, the precondition is
  fulfilled (or none was supplied) and the draft is marked cancelled when the callback
  runs, the promise resolves to the local object \<open>{ code: 300, text: 'cancelled' }\<close>,
  not to an error, and the callback leaves the topic as it found it: nothing is added to
  the requests sent to the Session. With the bodies this source has and a caller that only
  marks the draft cancelled, the requests sent are those sent before the call.
\<close>

theorem publishDraft_cancelled:
  assumes q: "publishDraft_queue h e pub (prom \<noteq> None) t = (Inr (), t1)"
    and f: "prom = None \<or> prom = Some Fulfilled"
    and c: "cancelled (store (between t1) pub)"
  shows "publishDraft h e between resp pub prom t = (Inr (Code_text 300 ''cancelled''), between t1)
       \<and> sent (snd (publishDraft h e between resp pub prom t)) = sent (between t1)
       \<and> fst (publishDraft topic_hooks e (cancel pub) resp pub prom t) = Inr (Code_text 300 ''cancelled'')
       \<and> sent (snd (publishDraft topic_hooks e (cancel pub) resp pub prom t)) = sent t"
proof -
  from f have o: "(case prom of None \<Rightarrow> Fulfilled | Some s \<Rightarrow> s) = Fulfilled"
    by auto
  from q o c have a: "publishDraft h e between resp pub prom t
      = (Inr (Code_text 300 ''cancelled''), between t1)"
    by (simp add: publishDraft_def publishDraft_settle_def)
  from q have "prom \<noteq> None \<or> subscribed t"
    using publishDraft_queue_ok [of h e pub "prom \<noteq> None" t] by blast
  then obtain t2 where q2: "publishDraft_queue topic_hooks e pub (prom \<noteq> None) t = (Inr (), t2)"
    using publishDraft_queue_ok [of topic_hooks e pub "prom \<noteq> None" t] by blast
  then have s2: "sent t2 = sent t" by (rule publishDraft_queue_source)
  have c2: "cancelled (store (cancel pub t2) pub)" by (simp add: cancel_def)
  from q2 o c2 have b: "publishDraft topic_hooks e (cancel pub) resp pub prom t
      = (Inr (Code_text 300 ''cancelled''), cancel pub t2)"
    by (simp add: publishDraft_def publishDraft_settle_def)
  have "sent (cancel pub t2) = sent t" using s2 by (simp add: cancel_def)
  with a b show ?thesis by simp
qed

theorem publishDraft_cancelled_witness:
  "publishDraft_queue topic_hooks env0 0 (None \<noteq> (None :: settled option)) live_topic
     = (Inr (), snd (publishDraft_queue topic_hooks env0 0 False live_topic))
   \<and> publishDraft topic_hooks env0 (cancel 0) (Inr ack) 0 None live_topic
     = (Inr (Code_text 300 ''cancelled''),
        cancel 0 (snd (publishDraft_queue topic_hooks env0 0 False live_topic)))
   \<and> sent (snd (publishDraft topic_hooks env0 (cancel 0) (Inr ack) 0 None live_topic)) = []"
proof -
  let ?t1 = "snd (publishDraft_queue topic_hooks env0 0 False live_topic)"
  have q: "publishDraft_queue topic_hooks env0 0 (None \<noteq> (None :: settled option)) live_topic
     = (Inr (), ?t1)"
    by (simp add: publishDraft_queue_def Let_def live_topic_def new_topic_def split: prod.splits)
  have f: "(None :: settled option) = None \<or> None = Some Fulfilled" by simp
  have c: "cancelled (store (cancel 0 ?t1) 0)" by (simp add: cancel_def)
  have e: "sent live_topic = []" by (simp add: live_topic_def new_topic_def)
  note th = publishDraft_cancelled [where between = "cancel 0" and resp = "Inr ack", OF q f c]
  from th have a: "publishDraft topic_hooks env0 (cancel 0) (Inr ack) 0 None live_topic
     = (Inr (Code_text 300 ''cancelled''), cancel 0 ?t1)"
    by blast
  from th have b: "sent (snd (publishDraft topic_hooks env0 (cancel 0) (Inr ack) 0 None live_topic))
     = sent live_topic"
    by blast
  from q a b e show ?thesis by simp
qed




end
